theory Spec2Isabelle
  imports Complex_Main "HOL-Library.Word" "HOL-Library.AList"
begin

unbundle bit_operations_syntax

section \<open>The result cache of \<open>backend/api_server.py\<close>\<close>

text \<open>
  The module keeps one global dictionary \<open>cache\<close> from cache key (the hex digest of
  \<open>generate_cache_key\<close>) to an entry \<open>{'data': result, 'expires_at': t}\<close>. The model
  passes the dictionary explicitly and returns it updated. Every call of \<open>time.time()\<close>
  is a parameter of the function that makes it, in the order of the calls, so that
  nothing is assumed about the clock.
\<close>

record 'r cache_entry =
  data :: 'r
  expires_at :: real

type_synonym 'r cache = "string \<rightharpoonup> 'r cache_entry"

definition CACHE_TTL :: real where
  "CACHE_TTL = 3600"

text \<open>
  What an endpoint hands to \<open>jsonify\<close>, with its HTTP status:
  \<^item> \<open>ErrorResponse status msg\<close> is \<open>jsonify({'error': msg}), status\<close>;
  \<^item> \<open>DataResponse r\<close> is \<open>jsonify(r)\<close> of \<open>get_cached\<close> (status 200);
  \<^item> \<open>MessageResponse msg\<close> is \<open>jsonify({'message': msg})\<close> (status 200);
  \<^item> \<open>ProcessResponse r cached key\<close> is \<open>jsonify({**r, 'cached': cached, 'cache_key': key})\<close>
    of the processing endpoint, \<open>key = None\<close> when the body has no \<open>cache_key\<close> entry.
\<close>

datatype 'r response =
    ErrorResponse nat string
  | DataResponse 'r
  | MessageResponse string
  | ProcessResponse 'r bool "string option"

text \<open>
  \<^verbatim>\<open>
  def clean_expired_cache():
      current_time = time.time()
      expired_keys = [key for key, value in cache.items()
                      if current_time > value['expires_at']]
      for key in expired_keys:
          del cache[key]
  \<close>
\<close>

definition clean_expired_cache :: "real \<Rightarrow> 'r cache \<Rightarrow> 'r cache" where
  "clean_expired_cache current_time cache =
     (\<lambda>key. case cache key of
               None \<Rightarrow> None
             | Some v \<Rightarrow> if current_time > expires_at v then None else Some v)"

text \<open>
  \<^verbatim>\<open>
  def get_cached(cache_key):
      clean_expired_cache()
      if cache_key not in cache:
          return jsonify({'error': 'Cache entry not found or expired'}), 404
      if time.time() >= cache[cache_key]['expires_at']:
          del cache[cache_key]
          return jsonify({'error': 'Cache entry expired'}), 404
      return jsonify(cache[cache_key]['data'])
  \<close>
  \<open>t_sweep\<close> is the clock reading inside \<open>clean_expired_cache\<close>, \<open>now\<close> the reading of
  the expiry test.
\<close>

definition get_cached :: "real \<Rightarrow> real \<Rightarrow> 'r cache \<Rightarrow> string \<Rightarrow> 'r cache \<times> 'r response" where
  "get_cached t_sweep now cache cache_key =
     (let cache1 = clean_expired_cache t_sweep cache in
      case cache1 cache_key of
        None \<Rightarrow> (cache1, ErrorResponse 404 ''Cache entry not found or expired'')
      | Some entry \<Rightarrow>
          if now \<ge> expires_at entry
          then (cache1(cache_key := None), ErrorResponse 404 ''Cache entry expired'')
          else (cache1, DataResponse (data entry)))"

text \<open>
  \<^verbatim>\<open>
  def delete_cached(cache_key):
      if cache_key in cache:
          del cache[cache_key]
          return jsonify({'message': 'Cache entry deleted'})
      return jsonify({'error': 'Cache entry not found'}), 404
  \<close>
\<close>

definition delete_cached :: "'r cache \<Rightarrow> string \<Rightarrow> 'r cache \<times> 'r response" where
  "delete_cached cache cache_key =
     (if cache_key \<in> dom cache
      then (cache(cache_key := None), MessageResponse ''Cache entry deleted'')
      else (cache, ErrorResponse 404 ''Cache entry not found''))"

section \<open>Python values and strings\<close>

text \<open>
  The exceptions that the modelled code can raise. A function that can raise returns
  \<open>error + 'a\<close>, with \<open>Inl\<close> for the exception.
\<close>

datatype error =
    UnboundLocalError string
  | AttributeError string
  | ValueError string
  | IndexError string

text \<open>
  Indexing a Python list (or a numpy array along one axis): a negative index counts from
  the end, an index outside \<open>-len .. len-1\<close> raises \<open>IndexError\<close>.
\<close>

definition py_index :: "'a list \<Rightarrow> int \<Rightarrow> error + 'a" where
  "py_index xs i =
     (if 0 \<le> i \<and> i < int (length xs) then Inr (xs ! nat i)
      else if i < 0 \<and> - int (length xs) \<le> i then Inr (xs ! nat (int (length xs) + i))
      else Inl (IndexError ''index out of range''))"

text \<open>
  A Python number that is either the \<open>int\<close> literal \<open>0\<close> of a guarded division or a
  \<open>float\<close>. Floats are values of a type parameter \<open>'f\<close>: the model does no float
  arithmetic of its own, it receives it from the environment below.
\<close>

datatype 'f number = PyInt int | PyFloat 'f

text \<open>
  Strings are \<open>string\<close>: a character is a code point below 256 (Latin-1), which is
  what \<open>str\<close> methods are modelled for. \<open>str.isspace\<close>, and the class \<open>\s\<close> of a
  \<open>str\<close> pattern, hold for the code points 9-13, 28-32, 133 and 160; \<open>str.isalpha\<close>
  for the letters of Latin-1; \<open>str.lower\<close> adds 32 to an upper-case letter.
\<close>

definition isspace :: "char \<Rightarrow> bool" where
  "isspace c =
     (let n = (of_char c :: int)
      in (9 \<le> n \<and> n \<le> 13) \<or> (28 \<le> n \<and> n \<le> 32) \<or> n = 133 \<or> n = 160)"

definition isalpha_char :: "char \<Rightarrow> bool" where
  "isalpha_char c =
     (let n = (of_char c :: int)
      in (65 \<le> n \<and> n \<le> 90) \<or> (97 \<le> n \<and> n \<le> 122) \<or> n = 170 \<or> n = 181 \<or> n = 186
         \<or> (192 \<le> n \<and> n \<le> 214) \<or> (216 \<le> n \<and> n \<le> 246) \<or> (248 \<le> n \<and> n \<le> 255))"

definition isalpha :: "string \<Rightarrow> bool" where
  "isalpha s = (s \<noteq> [] \<and> list_all isalpha_char s)"

definition lower_char :: "char \<Rightarrow> char" where
  "lower_char c =
     (let n = (of_char c :: int)
      in if (65 \<le> n \<and> n \<le> 90) \<or> (192 \<le> n \<and> n \<le> 214) \<or> (216 \<le> n \<and> n \<le> 222)
         then char_of (n + 32) else c)"

definition lower :: "string \<Rightarrow> string" where
  "lower s = map lower_char s"

text \<open>\<open>text.strip()\<close> removes the white space at both ends.\<close>

definition strip :: "string \<Rightarrow> string" where
  "strip s = rev (dropWhile isspace (rev (dropWhile isspace s)))"

section \<open>The collaborators of \<open>process_text\<close>\<close>

text \<open>
  \<open>process_text\<close> calls NLTK (\<open>sent_tokenize\<close>, \<open>word_tokenize\<close>,
  \<open>stopwords.words('english')\<close>), the gensim model loaded at import time
  (\<open>word2vec_model\<close>, \<open>None\<close> when loading failed), numpy and faiss. None of them is
  code of the repository: they are the fields of an environment that every modelled
  function receives.
  \<^item> \<open>key_to_vector m w\<close> is \<open>m[w].tolist()\<close>, defined when \<open>w in m\<close>;
  \<^item> \<open>round_div a b d\<close> is the float \<open>round(a / b, d)\<close>;
  \<^item> \<open>np_mean vs\<close> is \<open>np.mean(vs, axis=0).tolist()\<close>;
  \<^item> \<open>faiss_search d xb xq k\<close> is the pair \<open>(D, I)\<close> that \<open>index.search(xq, k)\<close> returns
    for an \<open>IndexFlatL2(d)\<close> to which the rows \<open>xb\<close> were added.
\<close>

record 'f keyed_vectors =
  key_to_vector :: "string \<rightharpoonup> 'f list"
  vector_size :: nat

record 'f env =
  sent_tokenize :: "string \<Rightarrow> string list"
  word_tokenize :: "string \<Rightarrow> string list"
  stopwords_words :: "string list"
  word2vec_model :: "'f keyed_vectors option"
  round_div :: "nat \<Rightarrow> nat \<Rightarrow> nat \<Rightarrow> 'f"
  np_mean :: "'f list list \<Rightarrow> 'f list"
  faiss_search :: "nat \<Rightarrow> 'f list list \<Rightarrow> 'f list list \<Rightarrow> nat \<Rightarrow> 'f list list \<times> int list list"

section \<open>\<open>process_text\<close>\<close>

text \<open>
  \<^verbatim>\<open>
  def sanitize_text(text):
      text = re.sub(r'<[^>]+>', '', text)
      return text
  \<close>
  A match starts at a \<open><\<close> that is followed by at least one character other than
  \<open>>\<close> and then by a \<open>>\<close>; it ends at the first \<open>>\<close>. The scan resumes after it.
\<close>

function sanitize_text :: "string \<Rightarrow> string" where
  "sanitize_text [] = []"
| "sanitize_text (c # cs) =
     (if c = CHR ''<'' \<and> takeWhile (\<lambda>x. x \<noteq> CHR ''>'') cs \<noteq> []
          \<and> dropWhile (\<lambda>x. x \<noteq> CHR ''>'') cs \<noteq> []
      then sanitize_text (tl (dropWhile (\<lambda>x. x \<noteq> CHR ''>'') cs))
      else c # sanitize_text cs)"
  by pat_completeness auto
termination
proof (relation "measure length")
  fix c :: char and cs :: string
  have "length (tl (dropWhile (\<lambda>x. x \<noteq> CHR ''>'') cs)) \<le> length cs"
    using length_dropWhile_le [of "\<lambda>x. x \<noteq> CHR ''>''" cs] by simp
  then show "(tl (dropWhile (\<lambda>x. x \<noteq> CHR ''>'') cs), c # cs) \<in> measure length"
    by simp
qed simp_all

text \<open>
  \<^verbatim>\<open>
  def get_word_embedding(word):
      if word2vec_model is None:
          return None
      try:
          if word.lower() in word2vec_model:
              return word2vec_model[word.lower()].tolist()
          elif word in word2vec_model:
              return word2vec_model[word].tolist()
          else:
              return None
      except:
          return None
  \<close>
\<close>

definition get_word_embedding :: "'f env \<Rightarrow> string \<Rightarrow> 'f list option" where
  "get_word_embedding env word =
     (case word2vec_model env of
        None \<Rightarrow> None
      | Some m \<Rightarrow>
          (case key_to_vector m (lower word) of
             Some v \<Rightarrow> Some v
           | None \<Rightarrow> (case key_to_vector m word of Some v \<Rightarrow> Some v | None \<Rightarrow> None)))"

text \<open>
  \<open>Counter(words)\<close>: a dictionary from word to count, in the order in which the words
  are first seen. An association list with distinct keys keeps that order;
  \<open>AList.update\<close> is the dictionary's item assignment.
\<close>

definition counter_incr :: "(string \<times> nat) list \<Rightarrow> string \<Rightarrow> (string \<times> nat) list" where
  "counter_incr m w = AList.update w (case map_of m w of None \<Rightarrow> 1 | Some c \<Rightarrow> c + 1) m"

definition Counter :: "string list \<Rightarrow> (string \<times> nat) list" where
  "Counter ws = foldl counter_incr [] ws"

text \<open>
  \<open>Counter.most_common(n)\<close> is \<open>heapq.nlargest(n, items, key=count)\<close>, that is
  \<open>sorted(items, key=count, reverse=True)[:n]\<close>: by decreasing count, items of one count
  in the order of the dictionary.
\<close>

definition most_common :: "nat \<Rightarrow> (string \<times> nat) list \<Rightarrow> (string \<times> nat) list" where
  "most_common n items = take n (sort_key (\<lambda>(w, c). - int c) items)"

record 'f word_entry =
  count :: nat
  frequency :: "'f number"
  is_stopword :: bool
  embedding :: "'f list option option"
  embedding_dim :: "nat option"
  embedding_available :: "bool option"

text \<open>
  A field of \<open>word_entry\<close> of type \<open>option\<close> is a key that the dictionary may not
  have: \<open>None\<close> is "no such key". \<open>embedding = Some None\<close> is the key \<open>'embedding'\<close> with
  the value \<open>None\<close>.
  \<^verbatim>\<open>
      word_entry = {
          'count': count,
          'frequency': round(count / word_count, 4) if word_count > 0 else 0,
          'is_stopword': word in stop_words
      }
      if include_embeddings:
          embedding = get_word_embedding(word)
          if embedding is not None:
              word_entry['embedding'] = embedding
              word_entry['embedding_dim'] = len(embedding)
          else:
              word_entry['embedding'] = None
              word_entry['embedding_available'] = False
  \<close>
\<close>

definition make_word_entry ::
  "'f env \<Rightarrow> bool \<Rightarrow> nat \<Rightarrow> string \<Rightarrow> nat \<Rightarrow> 'f word_entry" where
  "make_word_entry env include_embeddings word_count word cnt =
     (let word_entry =
            \<lparr>count = cnt,
             frequency = (if word_count > 0 then PyFloat (round_div env cnt word_count 4)
                          else PyInt 0),
             is_stopword = (word \<in> set (stopwords_words env)),
             embedding = None, embedding_dim = None, embedding_available = None\<rparr>
      in if include_embeddings
         then (case get_word_embedding env word of
                 Some emb \<Rightarrow> word_entry\<lparr>embedding := Some (Some emb),
                                          embedding_dim := Some (length emb)\<rparr>
               | None \<Rightarrow> word_entry\<lparr>embedding := Some None,
                                      embedding_available := Some False\<rparr>)
         else word_entry)"

text \<open>
  \<^verbatim>\<open>
      embeddings = []
      words_list = []
      for word in content_words:
          emb = get_word_embedding(word)
          if emb is not None:
              embeddings.append(emb)
              words_list.append(word)
  \<close>
\<close>

fun collect_embeddings :: "'f env \<Rightarrow> string list \<Rightarrow> 'f list list \<times> string list" where
  "collect_embeddings env [] = ([], [])"
| "collect_embeddings env (word # rest) =
     (case get_word_embedding env word of
        None \<Rightarrow> collect_embeddings env rest
      | Some emb \<Rightarrow> (emb # fst (collect_embeddings env rest),
                     word # snd (collect_embeddings env rest)))"

text \<open>
  \<^verbatim>\<open>
      neighbors = []
      for j in range(1, n):  # Skip the first one (itself)
          neighbor_idx = I[i][j]
          neighbor_word = words_list[neighbor_idx]
          neighbors.append({
              'word': neighbor_word,
              'distance': float(D[i][j])
          })
  \<close>
  A neighbour \<open>{'word': w, 'distance': d}\<close> is the pair \<open>(w, d)\<close>. The second argument
  of \<open>neighbors_loop\<close> is the list of the values of \<open>j\<close> still to come.
\<close>

fun neighbors_loop ::
  "string list \<Rightarrow> 'f list list \<Rightarrow> int list list \<Rightarrow> int \<Rightarrow> nat list
     \<Rightarrow> error + (string \<times> 'f) list" where
  "neighbors_loop words_list D I i [] = Inr []"
| "neighbors_loop words_list D I i (j # js) =
     (case py_index I i of Inl e \<Rightarrow> Inl e | Inr I_i \<Rightarrow>
      case py_index I_i (int j) of Inl e \<Rightarrow> Inl e | Inr neighbor_idx \<Rightarrow>
      case py_index words_list neighbor_idx of Inl e \<Rightarrow> Inl e | Inr neighbor_word \<Rightarrow>
      case py_index D i of Inl e \<Rightarrow> Inl e | Inr D_i \<Rightarrow>
      case py_index D_i (int j) of Inl e \<Rightarrow> Inl e | Inr d \<Rightarrow>
      case neighbors_loop words_list D I i js of Inl e \<Rightarrow> Inl e | Inr rest \<Rightarrow>
      Inr ((neighbor_word, d) # rest))"

text \<open>
  \<^verbatim>\<open>
      words_neighbors = {}
      for i, word in enumerate(words_list):
          neighbors = ...
          words_neighbors[word] = neighbors
  \<close>
  The third-last argument is what is left of \<open>enumerate(words_list)\<close>, the last one
  the dictionary built so far.
\<close>

fun words_neighbors_loop ::
  "nat \<Rightarrow> string list \<Rightarrow> 'f list list \<Rightarrow> int list list \<Rightarrow> (nat \<times> string) list
     \<Rightarrow> (string \<times> (string \<times> 'f) list) list \<Rightarrow> error + (string \<times> (string \<times> 'f) list) list" where
  "words_neighbors_loop n words_list D I [] acc = Inr acc"
| "words_neighbors_loop n words_list D I ((i, word) # rest) acc =
     (case neighbors_loop words_list D I (int i) [1..<n] of
        Inl e \<Rightarrow> Inl e
      | Inr neighbors \<Rightarrow>
          words_neighbors_loop n words_list D I rest (AList.update word neighbors acc))"

record 'f statistics =
  word_count :: nat
  unique_word_count :: nat
  sentence_count :: nat
  character_count :: nat
  avg_words_per_sentence :: "'f number"
  avg_word_length :: "'f number"
  content_word_count :: nat
  stopword_count :: nat

record 'f analysis_result =
  statistics :: "'f statistics"
  top_words :: "(string \<times> nat) list"
  sentences :: "string list"
  word_dictionary :: "(string \<times> 'f word_entry) list"
  words_neighbors :: "(string \<times> (string \<times> 'f) list) list"
  document_embedding :: "'f list option"
  embedding_coverage :: "'f number option"

text \<open>
  The words that \<open>process_text\<close> counts (lines 109-118), its content words (lines
  138-139) and its \<open>top_words\<close> (lines 142-143), as functions of the text:
  \<^verbatim>\<open>
      sanitized = sanitize_text(text)
      words = word_tokenize(sanitized.lower())
      words = [word for word in words if word.isalpha()]
      ...
      stop_words = set(stopwords.words('english'))
      content_words = [word for word in words if word not in stop_words]
      top_words = [ {'word': word, 'count': count}
                   for word, count in word_freq.most_common(100) if word in content_words]
  \<close>
\<close>

definition alpha_words :: "'f env \<Rightarrow> string \<Rightarrow> string list" where
  "alpha_words env text = filter isalpha (word_tokenize env (lower (sanitize_text text)))"

definition content_words_of :: "'f env \<Rightarrow> string list \<Rightarrow> string list" where
  "content_words_of env words = filter (\<lambda>word. word \<notin> set (stopwords_words env)) words"

definition top_words_of :: "string list \<Rightarrow> (string \<times> nat) list \<Rightarrow> (string \<times> nat) list" where
  "top_words_of content_words word_freq =
     filter (\<lambda>(word, cnt). word \<in> set content_words) (most_common 100 word_freq)"

text \<open>
  \<^verbatim>\<open>
      document_embedding = None
      if include_embeddings and word2vec_model is not None:
          embeddings = []
          words_list = []
          for word in content_words:  # Use content words only
              ...
          if embeddings:
              document_embedding = np.mean(embeddings, axis=0).tolist()

      # Calculate nearest neighbrs to each word in the document
      print(np.array(embeddings).shape)
      n = 10
      index = faiss.IndexFlatL2(word2vec_model.vector_size)
      index.add(np.array(embeddings).astype('float32'))
      D, I = index.search(np.array(embeddings).astype('float32'), n)

      words_neighbors = {}
      for i, word in enumerate(words_list):
          ...
      result = { 'statistics': {...}, 'top_words': top_words, 'sentences': sentences,
                 'word_dictionary': word_dictionary, 'words_neighbors': words_neighbors }
      if document_embedding is not None:
          result['document_embedding'] = document_embedding
          result['embedding_coverage'] = round(len([w for w in content_words
              if get_word_embedding(w) is not None]) / len(content_words), 2) \
              if content_words else 0
      return result
  \<close>
  \<open>process_text\<close> itself. The local variables \<open>embeddings\<close> and \<open>words_list\<close> are
  assigned only inside \<open>if include_embeddings and word2vec_model is not None\<close>: they are
  one optional pair, \<open>None\<close> while unassigned, and reading \<open>embeddings\<close> at line 180
  while it is unassigned raises \<open>UnboundLocalError\<close>. Line 183 hands
  \<open>np.array(embeddings)\<close> to \<open>index.add\<close>, which unpacks \<open>n, d = x.shape\<close>: for the
  empty list the shape is \<open>(0,)\<close> and the unpacking raises \<open>ValueError\<close>.
  The local variables keep their names, also where a field of the result has the same
  name; \<open>branch\<close> is the pair \<open>(embeddings, words_list)\<close> and \<open>neighbors\<close> the finished
  dictionary \<open>words_neighbors\<close>.
\<close>

definition process_text :: "'f env \<Rightarrow> string \<Rightarrow> bool \<Rightarrow> error + 'f analysis_result" where
  "process_text env text include_embeddings =
     (let sanitized = sanitize_text text;
          sentences = sent_tokenize env sanitized;
          words = alpha_words env text;
          word_count = length words;
          sentence_count = length sentences;
          avg_words_per_sentence =
            (if sentence_count > 0 then PyFloat (round_div env word_count sentence_count 2)
             else PyInt 0);
          word_freq = Counter words;
          char_count = length (filter (\<lambda>c. \<not> isspace c) sanitized);
          unique_word_count = card (set words);
          avg_word_length =
            (if word_count > 0
             then PyFloat (round_div env (sum_list (map length words)) word_count 2)
             else PyInt 0);
          content_words = content_words_of env words;
          top_words = top_words_of content_words word_freq;
          word_dictionary =
            map (\<lambda>(word, cnt).
                   (word, make_word_entry env include_embeddings word_count word cnt)) word_freq;
          branch = (if include_embeddings \<and> word2vec_model env \<noteq> None
                    then Some (collect_embeddings env content_words) else None);
          document_embedding =
            (case branch of
               None \<Rightarrow> None
             | Some (embeddings, words_list) \<Rightarrow>
                 if embeddings \<noteq> [] then Some (np_mean env embeddings) else None);
          n = 10
      in case branch of
           None \<Rightarrow> Inl (UnboundLocalError ''embeddings'')
         | Some (embeddings, words_list) \<Rightarrow>
             (case word2vec_model env of
                None \<Rightarrow> Inl (AttributeError ''vector_size'')
              | Some m \<Rightarrow>
                  if embeddings = [] then Inl (ValueError ''not enough values to unpack'')
                  else
                    (case faiss_search env (vector_size m) embeddings embeddings n of
                       (D, I) \<Rightarrow>
                         (case words_neighbors_loop n words_list D I
                                 (List.enumerate 0 words_list) [] of
                            Inl e \<Rightarrow> Inl e
                          | Inr neighbors \<Rightarrow>
                              Inr \<lparr>statistics =
                                     \<lparr>word_count = word_count,
                                      unique_word_count = unique_word_count,
                                      sentence_count = sentence_count,
                                      character_count = char_count,
                                      avg_words_per_sentence = avg_words_per_sentence,
                                      avg_word_length = avg_word_length,
                                      content_word_count = length content_words,
                                      stopword_count = word_count - length content_words\<rparr>,
                                   top_words = top_words,
                                   sentences = sentences,
                                   word_dictionary = word_dictionary,
                                   words_neighbors = neighbors,
                                   document_embedding = document_embedding,
                                   embedding_coverage =
                                     (if document_embedding \<noteq> None
                                      then Some (if content_words \<noteq> []
                                         then PyFloat (round_div env
                                           (length (filter (\<lambda>w. get_word_embedding env w \<noteq> None)
                                              content_words))
                                           (length content_words) 2)
                                         else PyInt 0)
                                      else None)\<rparr>))))"

section \<open>\<open>generate_cache_key\<close>\<close>

text \<open>
  The JSON values of a request. The options of a request are a JSON object, which
  \<open>request.get_json()\<close> turns into a \<open>dict\<close>: an association list with distinct keys,
  in the order of insertion. Option values are \<open>null\<close>, booleans, integers and strings;
  floats and nested containers are outside the model.
\<close>

datatype jvalue = JNull | JBool bool | JInt int | JStr string

type_synonym options = "(string \<times> jvalue) list"

definition hex_digit :: "nat \<Rightarrow> char" where
  "hex_digit n = ''0123456789abcdef'' ! n"

text \<open>
  \<open>repr\<close> of a \<open>str\<close>: in double quotes when the string has a single quote and no
  double quote, in single quotes otherwise; the quote and the backslash are escaped with a
  backslash, tab, newline and carriage return are written \<open>\t \n \r\<close>, and the other
  code points that are not printable (below 32, 127 to 160, 173) as \<open>\xhh\<close>.
\<close>

definition repr_char :: "char \<Rightarrow> char \<Rightarrow> string" where
  "repr_char q c =
     (let n = (of_char c :: int) in
      if c = q \<or> c = CHR 0x5C then [CHR 0x5C, c]
      else if n = 9 then [CHR 0x5C, CHR ''t'']
      else if n = 10 then [CHR 0x5C, CHR ''n'']
      else if n = 13 then [CHR 0x5C, CHR ''r'']
      else if n < 32 \<or> (127 \<le> n \<and> n \<le> 160) \<or> n = 173
        then [CHR 0x5C, CHR ''x'', hex_digit (nat (n div 16)), hex_digit (nat (n mod 16))]
      else [c])"

definition repr_str :: "string \<Rightarrow> string" where
  "repr_str s =
     (let q = (if CHR 0x27 \<in> set s \<and> CHR 0x22 \<notin> set s then CHR 0x22 else CHR 0x27)
      in q # concat (map (repr_char q) s) @ [q])"

function decimal :: "nat \<Rightarrow> string" where
  "decimal n = (if n < 10 then [hex_digit n] else decimal (n div 10) @ [hex_digit (n mod 10)])"
  by pat_completeness auto
termination
  by (relation "measure (\<lambda>n. n)") simp_all

definition repr_int :: "int \<Rightarrow> string" where
  "repr_int i = (if i < 0 then CHR ''-'' # decimal (nat (- i)) else decimal (nat i))"

fun repr_jvalue :: "jvalue \<Rightarrow> string" where
  "repr_jvalue JNull = ''None''"
| "repr_jvalue (JBool b) = (if b then ''True'' else ''False'')"
| "repr_jvalue (JInt i) = repr_int i"
| "repr_jvalue (JStr s) = repr_str s"

fun join :: "string \<Rightarrow> string list \<Rightarrow> string" where
  "join sep [] = []"
| "join sep [x] = x"
| "join sep (x # y # ys) = x @ sep @ join sep (y # ys)"

text \<open>\<open>str\<close> of a \<open>dict\<close>: its items in the order of the dictionary.\<close>

definition str_dict :: "options \<Rightarrow> string" where
  "str_dict items =
     ''{'' @ join '', '' (map (\<lambda>(k, v). repr_str k @ '': '' @ repr_jvalue v) items) @ ''}''"


text \<open>\<open>s.encode('utf-8')\<close> for code points below 256: one byte below 128, two from there.\<close>

definition utf8_encode :: "string \<Rightarrow> 8 word list" where
  "utf8_encode s =
     concat (map (\<lambda>c. let b = (of_char c :: 8 word) in
                       if b < 128 then [b] else [192 OR drop_bit 6 b, 128 OR (b AND 63)]) s)"

subsection \<open>SHA-256\<close>

text \<open>
  \<open>hashlib.sha256(bs).hexdigest()\<close>, after FIPS 180-4: the message is padded to a
  multiple of 64 bytes, and each block of sixteen 32-bit words is expanded to 64 words and
  run through 64 rounds.
\<close>

text \<open>The round constants, eight rounds to a row.\<close>

definition K256 :: "32 word list" where
  "K256 = concat
    [
     [0x428a2f98, 0x71374491, 0xb5c0fbcf, 0xe9b5dba5, 0x3956c25b, 0x59f111f1, 0x923f82a4, 0xab1c5ed5],
     [0xd807aa98, 0x12835b01, 0x243185be, 0x550c7dc3, 0x72be5d74, 0x80deb1fe, 0x9bdc06a7, 0xc19bf174],
     [0xe49b69c1, 0xefbe4786, 0x0fc19dc6, 0x240ca1cc, 0x2de92c6f, 0x4a7484aa, 0x5cb0a9dc, 0x76f988da],
     [0x983e5152, 0xa831c66d, 0xb00327c8, 0xbf597fc7, 0xc6e00bf3, 0xd5a79147, 0x06ca6351, 0x14292967],
     [0x27b70a85, 0x2e1b2138, 0x4d2c6dfc, 0x53380d13, 0x650a7354, 0x766a0abb, 0x81c2c92e, 0x92722c85],
     [0xa2bfe8a1, 0xa81a664b, 0xc24b8b70, 0xc76c51a3, 0xd192e819, 0xd6990624, 0xf40e3585, 0x106aa070],
     [0x19a4c116, 0x1e376c08, 0x2748774c, 0x34b0bcb5, 0x391c0cb3, 0x4ed8aa4a, 0x5b9cca4f, 0x682e6ff3],
     [0x748f82ee, 0x78a5636f, 0x84c87814, 0x8cc70208, 0x90befffa, 0xa4506ceb, 0xbef9a3f7, 0xc67178f2]
    ]"

definition H256 :: "32 word list" where
  "H256 = [0x6a09e667, 0xbb67ae85, 0x3c6ef372, 0xa54ff53a,
           0x510e527f, 0x9b05688c, 0x1f83d9ab, 0x5be0cd19]"

definition rotr :: "nat \<Rightarrow> 32 word \<Rightarrow> 32 word" where
  "rotr n x = drop_bit n x OR push_bit (32 - n) x"

definition Ch :: "32 word \<Rightarrow> 32 word \<Rightarrow> 32 word \<Rightarrow> 32 word" where
  "Ch x y z = (x AND y) XOR (NOT x AND z)"

definition Maj :: "32 word \<Rightarrow> 32 word \<Rightarrow> 32 word \<Rightarrow> 32 word" where
  "Maj x y z = (x AND y) XOR (x AND z) XOR (y AND z)"

definition Sigma0 :: "32 word \<Rightarrow> 32 word" where
  "Sigma0 x = rotr 2 x XOR rotr 13 x XOR rotr 22 x"

definition Sigma1 :: "32 word \<Rightarrow> 32 word" where
  "Sigma1 x = rotr 6 x XOR rotr 11 x XOR rotr 25 x"

definition sigma0 :: "32 word \<Rightarrow> 32 word" where
  "sigma0 x = rotr 7 x XOR rotr 18 x XOR drop_bit 3 x"

definition sigma1 :: "32 word \<Rightarrow> 32 word" where
  "sigma1 x = rotr 17 x XOR rotr 19 x XOR drop_bit 10 x"

definition sha_pad :: "8 word list \<Rightarrow> 8 word list" where
  "sha_pad bs =
     (let l = length bs;
          z = (119 - l mod 64) mod 64;
          bits = (word_of_nat (8 * l) :: 64 word)
      in bs @ [128] @ replicate z 0 @ map (\<lambda>i. ucast (drop_bit (8 * (7 - i)) bits)) [0..<8])"

fun be_words :: "8 word list \<Rightarrow> 32 word list" where
  "be_words (a # b # c # d # rest) =
     (push_bit 24 (ucast a) OR push_bit 16 (ucast b) OR push_bit 8 (ucast c) OR ucast d)
       # be_words rest"
| "be_words _ = []"

fun schedule :: "nat \<Rightarrow> 32 word list \<Rightarrow> 32 word list" where
  "schedule 0 w = w"
| "schedule (Suc n) w =
     (let t = length w in
      schedule n (w @ [sigma1 (w ! (t - 2)) + w ! (t - 7) + sigma0 (w ! (t - 15)) + w ! (t - 16)]))"

fun sha_round :: "32 word list \<Rightarrow> 32 word \<times> 32 word \<Rightarrow> 32 word list" where
  "sha_round [a, b, c, d, e, f, g, h] (k, w) =
     (let t1 = h + Sigma1 e + Ch e f g + k + w;
          t2 = Sigma0 a + Maj a b c
      in [t1 + t2, a, b, c, d + t1, e, f, g])"
| "sha_round s _ = s"

definition compress :: "32 word list \<Rightarrow> 32 word list \<Rightarrow> 32 word list" where
  "compress h block = map2 (+) h (foldl sha_round h (zip K256 (schedule 48 block)))"

fun chunks16 :: "32 word list \<Rightarrow> 32 word list list" where
  "chunks16 [] = []"
| "chunks16 ws = take 16 ws # chunks16 (drop 16 ws)"

definition sha256 :: "8 word list \<Rightarrow> 32 word list" where
  "sha256 bs = foldl compress H256 (chunks16 (be_words (sha_pad bs)))"

definition hex_word :: "32 word \<Rightarrow> string" where
  "hex_word w = map (\<lambda>i. hex_digit (unat (drop_bit (4 * (7 - i)) w AND 15))) [0..<8]"

definition hexdigest :: "32 word list \<Rightarrow> string" where
  "hexdigest ws = concat (map hex_word ws)"

text \<open>
  \<^verbatim>\<open>
  def generate_cache_key(text, options=None):
      hash_input = text + str(options if options else {})
      return hashlib.sha256(hash_input.encode('utf-8')).hexdigest()
  \<close>
  \<open>hash_input\<close> is the first line; \<open>options = None\<close> is the default argument.
\<close>

definition hash_input :: "string \<Rightarrow> options option \<Rightarrow> string" where
  "hash_input text opts =
     text @ str_dict (case opts of None \<Rightarrow> [] | Some d \<Rightarrow> if d \<noteq> [] then d else [])"

definition generate_cache_key :: "string \<Rightarrow> options option \<Rightarrow> string" where
  "generate_cache_key text opts = hexdigest (sha256 (utf8_encode (hash_input text opts)))"

section \<open>\<open>process_text_endpoint\<close>\<close>

text \<open>
  The body of a request, when it is a JSON object: \<open>text_field\<close> is \<open>data['text']\<close> and
  \<open>options_field\<close> is \<open>data['options']\<close>, each \<open>None\<close> when the key is missing (a missing
  or empty body has neither). \<open>options_field\<close> is a JSON object when present.
\<close>

record request_json =
  text_field :: "jvalue option"
  options_field :: "options option"

text \<open>The truth value of a JSON value in an \<open>if\<close>.\<close>

fun truthy :: "jvalue \<Rightarrow> bool" where
  "truthy JNull = False"
| "truthy (JBool b) = b"
| "truthy (JInt i) = (i \<noteq> 0)"
| "truthy (JStr s) = (s \<noteq> [])"

text \<open>
  \<^verbatim>\<open>
  def process_text_endpoint():
      try:
          data = request.get_json()
          if not data or 'text' not in data:
              return jsonify({'error': 'Text is required'}), 400
          text = data['text']
          if not isinstance(text, str):
              return jsonify({'error': 'Text must be a string'}), 400
          if len(text) > 5 * 1024 * 1024:  # 5MB text limit
              return jsonify({'error': 'Text too large. Maximum 5MB'}), 400
          if len(text.strip()) == 0:
              return jsonify({'error': 'Text cannot be empty'}), 400
          options = data.get('options', {})
          include_embeddings = options.get('include_embeddings', True)
          cache_key = generate_cache_key(text, options)
          clean_expired_cache()
          if cache_key in cache and time.time() < cache[cache_key]['expires_at']:
              return jsonify({**cache[cache_key]['data'], 'cached': True})
          result = process_text(text, include_embeddings=include_embeddings)
          cache[cache_key] = {'data': result, 'expires_at': time.time() + CACHE_TTL}
          return jsonify({**result, 'cached': False, 'cache_key': cache_key})
      except Exception as e:
          app.logger.error(f'Processing error: {str(e)}')
          return jsonify({'error': f'Failed to process text: {str(e)}'}), 500
  \<close>
  \<open>t_sweep\<close>, \<open>t_check\<close> and \<open>t_store\<close> are the three clock readings, in the order of
  the calls. \<open>ExceptionResponse e\<close> is the answer of the \<open>except\<close> clause, status 500, for
  the exception \<open>e\<close>.
\<close>

datatype 'r http = Answer "'r response" | ExceptionResponse error

text \<open>\<open>options = data.get('options', {})\<close>\<close>

definition get_options :: "request_json \<Rightarrow> options" where
  "get_options req = (case options_field req of None \<Rightarrow> [] | Some d \<Rightarrow> d)"

definition process_text_endpoint ::
  "'f env \<Rightarrow> real \<Rightarrow> real \<Rightarrow> real \<Rightarrow> 'f analysis_result cache \<Rightarrow> request_json
     \<Rightarrow> 'f analysis_result cache \<times> 'f analysis_result http" where
  "process_text_endpoint env t_sweep t_check t_store cache req =
     (case text_field req of
        None \<Rightarrow> (cache, Answer (ErrorResponse 400 ''Text is required''))
      | Some (JStr text) \<Rightarrow>
          if int (length text) > 5 * 1024 * 1024
            then (cache, Answer (ErrorResponse 400 ''Text too large. Maximum 5MB''))
          else if length (strip text) = 0
            then (cache, Answer (ErrorResponse 400 ''Text cannot be empty''))
          else
            (let opts = get_options req;
                 include_embeddings =
                   (case map_of opts ''include_embeddings'' of None \<Rightarrow> True | Some v \<Rightarrow> truthy v);
                 cache_key = generate_cache_key text (Some opts);
                 cache1 = clean_expired_cache t_sweep cache;
                 hit = (case cache1 cache_key of
                          None \<Rightarrow> None
                        | Some entry \<Rightarrow> if t_check < expires_at entry then Some entry else None)
             in case hit of
                  Some entry \<Rightarrow> (cache1, Answer (ProcessResponse (data entry) True None))
                | None \<Rightarrow>
                    (case process_text env text include_embeddings of
                       Inl e \<Rightarrow> (cache1, ExceptionResponse e)
                     | Inr result \<Rightarrow>
                         (cache1(cache_key \<mapsto> \<lparr>data = result, expires_at = t_store + CACHE_TTL\<rparr>),
                          Answer (ProcessResponse result False (Some cache_key)))))
      | Some _ \<Rightarrow> (cache, Answer (ErrorResponse 400 ''Text must be a string'')))"

section \<open>Stand-ins for the collaborators\<close>

text \<open>
  To run the model on a concrete text the environment needs values. These are simple
  stand-ins, used only where a theorem is stated at a concrete input: words are split at
  blanks, a non-empty text is one sentence, floats are real numbers and float arithmetic
  is exact. \<open>flat_l2_search\<close> stands for what faiss documents of \<open>IndexFlatL2.search\<close>: an
  exhaustive search by squared Euclidean distance, each row by increasing distance, and
  when the index holds fewer than \<open>k\<close> vectors the remaining labels are \<open>-1\<close> and the
  remaining distances the largest \<open>float32\<close>.
\<close>

fun split_blanks :: "string \<Rightarrow> string list" where
  "split_blanks [] = [[]]"
| "split_blanks (c # cs) =
     (if c = CHR '' '' then [] # split_blanks cs
      else (case split_blanks cs of [] \<Rightarrow> [[c]] | w # ws \<Rightarrow> (c # w) # ws))"

definition sq_dist :: "real list \<Rightarrow> real list \<Rightarrow> real" where
  "sq_dist x y = sum_list (map2 (\<lambda>a b. (a - b) * (a - b)) x y)"

definition FLT_MAX :: real where
  "FLT_MAX = 340282346638528859811704183484516925440"

definition flat_l2_search ::
  "nat \<Rightarrow> real list list \<Rightarrow> real list list \<Rightarrow> nat \<Rightarrow> real list list \<times> int list list" where
  "flat_l2_search d xb xq k =
     (let rows = map (\<lambda>q. let hits = take k (sort_key fst
                                (map (\<lambda>(i, x). (sq_dist q x, int i)) (List.enumerate 0 xb)))
                           in hits @ replicate (k - length hits) (FLT_MAX, - 1)) xq
      in (map (map fst) rows, map (map snd) rows))"

definition mean_rows :: "real list list \<Rightarrow> real list" where
  "mean_rows vs =
     map (\<lambda>j. sum_list (map (\<lambda>v. v ! j) vs) / real (length vs)) [0..<length (hd vs)]"

definition demo_env :: "(string \<rightharpoonup> real list) option \<Rightarrow> string list \<Rightarrow> real env" where
  "demo_env vocab stops =
     \<lparr>sent_tokenize = (\<lambda>s. if s = [] then [] else [s]),
      word_tokenize = (\<lambda>s. filter (\<lambda>w. w \<noteq> []) (split_blanks s)),
      stopwords_words = stops,
      word2vec_model = map_option (\<lambda>m. \<lparr>key_to_vector = m, vector_size = 2\<rparr>) vocab,
      round_div = (\<lambda>a b d. real_of_int (round (real a * 10 ^ d / real b)) / 10 ^ d),
      np_mean = mean_rows,
      faiss_search = flat_l2_search\<rparr>"

text \<open>
  A model with the two words \<open>cat\<close> and \<open>dog\<close>, and the stop word \<open>the\<close>; the
  analysis of the text \<open>cat dog\<close>, and a request for that text without options.
\<close>

definition cat_dog_env :: "real env" where
  "cat_dog_env = demo_env (Some [''cat'' \<mapsto> [0, 0], ''dog'' \<mapsto> [1, 0]]) [''the'']"

definition cat_dog_result :: "real analysis_result" where
  "cat_dog_result = projr (process_text cat_dog_env ''cat dog'' True)"

definition cat_dog_request :: request_json where
  "cat_dog_request = \<lparr>text_field = Some (JStr ''cat dog''), options_field = None\<rparr>"


text \<open>
  The distinct elements of a list in the order of their first occurrence: the order of
  the keys of \<open>Counter(words)\<close>.
\<close>

definition first_seen :: "'a list \<Rightarrow> 'a list" where
  "first_seen ws = rev (remdups (rev ws))"

text \<open>
  A text of 102 words: \<open>the\<close> twice, \<open>cat\<close>, and 99 two-letter words, each once.
\<close>

definition hundred_words_text :: string where
  "hundred_words_text =
     ''the the cat aa ab ac ad ae af ag ah ai aj ba bb bc bd be bf bg bh bi bj ca cb cc cd ce cf cg ch ci cj da db dc dd de df dg dh di dj ea eb ec ed ee ef eg eh ei ej fa fb fc fd fe ff fg fh fi fj ga gb gc gd ge gf gg gh gi gj ha hb hc hd he hf hg hh hi hj ia ib ic id ie if ig ih ii ij ja jb jc jd je jf jg jh ji''"

section \<open>Properties of the cache\<close>

lemma clean_expired_cache_Some:
  "clean_expired_cache t cache k = Some e \<longleftrightarrow> cache k = Some e \<and> \<not> t > expires_at e"
  by (auto simp: clean_expired_cache_def split: option.splits)

lemma clean_expired_cache_None:
  "clean_expired_cache t cache k = None \<longleftrightarrow>
     cache k = None \<or> (\<exists>e. cache k = Some e \<and> t > expires_at e)"
  by (auto simp: clean_expired_cache_def split: option.splits)

text \<open>
  Claim C7. The claim says that the sweep removes exactly the entries with
  \<open>expires_at \<le> now\<close>, an entry with \<open>expires_at = now\<close> included. The sweep tests
  \<open>current_time > expires_at\<close>: an entry that expires at the very instant of the sweep
  stays in the cache, although \<open>get_cached\<close> and the processing endpoint treat that
  instant as expired. The theorem runs the sweep at time 100 on a cache whose only entry
  expires at 100.
\<close>

theorem clean_expired_cache_keeps_boundary_entry:
  "clean_expired_cache 100 [''k'' \<mapsto> \<lparr>data = (), expires_at = 100\<rparr>] ''k''
     = Some \<lparr>data = (), expires_at = 100\<rparr>"
  by (simp add: clean_expired_cache_def)

text \<open>
  Claim C10. Deleting a key that is in the cache answers \<open>Cache entry deleted\<close> and
  removes it, whatever its \<open>expires_at\<close> is (the function reads no clock and runs no
  sweep); only a key that is not in the cache answers 404 \<open>Cache entry not found\<close>, and
  then the cache is unchanged.
\<close>

theorem delete_cached_ignores_expiry:
  "(\<forall>e. cache k = Some e \<longrightarrow>
      delete_cached cache k = (cache(k := None), MessageResponse ''Cache entry deleted''))
   \<and> (cache k = None \<longrightarrow>
      delete_cached cache k = (cache, ErrorResponse 404 ''Cache entry not found''))"
  by (auto simp: delete_cached_def)

text \<open>
  The witness deletes an entry that expired at time 5 and was never swept (at time 10
  \<open>get_cached\<close> answers 404 for it), and a key of the empty cache.
\<close>

theorem delete_cached_ignores_expiry_witness:
  "snd (get_cached 10 10 [''k'' \<mapsto> \<lparr>data = (), expires_at = 5\<rparr>] ''k'')
     = ErrorResponse 404 ''Cache entry not found or expired''
   \<and> snd (delete_cached [''k'' \<mapsto> \<lparr>data = (), expires_at = 5\<rparr>] ''k'')
     = MessageResponse ''Cache entry deleted''
   \<and> fst (delete_cached [''k'' \<mapsto> \<lparr>data = (), expires_at = 5\<rparr>] ''k'') ''k'' = None
   \<and> snd (delete_cached (Map.empty :: unit cache) ''k'')
     = ErrorResponse 404 ''Cache entry not found''"
  using delete_cached_ignores_expiry
          [of "[''k'' \<mapsto> \<lparr>data = (), expires_at = 5\<rparr>]" "''k''"]
        delete_cached_ignores_expiry [of "Map.empty :: unit cache" "''k''"]
  by (simp add: get_cached_def clean_expired_cache_def)

lemma get_cached_cases:
  "get_cached t_sweep now cache fp =
     (case cache fp of
        None \<Rightarrow> (clean_expired_cache t_sweep cache,
                 ErrorResponse 404 ''Cache entry not found or expired'')
      | Some e \<Rightarrow>
          if t_sweep > expires_at e
          then (clean_expired_cache t_sweep cache,
                ErrorResponse 404 ''Cache entry not found or expired'')
          else if now \<ge> expires_at e
          then ((clean_expired_cache t_sweep cache)(fp := None),
                ErrorResponse 404 ''Cache entry expired'')
          else (clean_expired_cache t_sweep cache, DataResponse (data e)))"
  by (simp add: get_cached_def clean_expired_cache_def Let_def split: option.splits)

lemma endpoint_valid_text:
  assumes "text_field req = Some (JStr body)"
      and "\<not> int (length body) > 5 * 1024 * 1024" and "length (strip body) \<noteq> 0"
  shows "process_text_endpoint env t_sweep t_check t_store cache req =
     (let opts = get_options req;
          include_embeddings =
            (case map_of opts ''include_embeddings'' of None \<Rightarrow> True | Some v \<Rightarrow> truthy v);
          cache_key = generate_cache_key body (Some opts);
          cache1 = clean_expired_cache t_sweep cache;
          hit = (case cache1 cache_key of
                   None \<Rightarrow> None
                 | Some entry \<Rightarrow> if t_check < expires_at entry then Some entry else None)
      in case hit of
           Some entry \<Rightarrow> (cache1, Answer (ProcessResponse (data entry) True None))
         | None \<Rightarrow>
             (case process_text env body include_embeddings of
                Inl e \<Rightarrow> (cache1, ExceptionResponse e)
              | Inr result \<Rightarrow>
                  (cache1(cache_key \<mapsto> \<lparr>data = result, expires_at = t_store + CACHE_TTL\<rparr>),
                   Answer (ProcessResponse result False (Some cache_key)))))"
  using assms by (simp add: process_text_endpoint_def)

lemma endpoint_process_response:
  assumes "snd (process_text_endpoint env t_sweep t_check t_store cache req)
             = Answer (ProcessResponse r c k)"
  shows "\<exists>body. text_field req = Some (JStr body)
           \<and> \<not> int (length body) > 5 * 1024 * 1024 \<and> length (strip body) \<noteq> 0"
  using assms
  by (auto simp: process_text_endpoint_def split: option.splits jvalue.splits if_splits)

lemma cat_dog_valid:
  "\<not> int (length ''cat dog'') > 5 * 1024 * 1024" "length (strip ''cat dog'') \<noteq> 0"
  by (simp_all add: strip_def isspace_def)

lemma process_text_cat_dog:
  "process_text cat_dog_env ''cat dog'' True = Inr cat_dog_result"
proof -
  have "\<not> isl (process_text cat_dog_env ''cat dog'' True)"
    by code_simp
  then show ?thesis
    by (cases "process_text cat_dog_env ''cat dog'' True") (simp_all add: cat_dog_result_def)
qed

text \<open>
  Claim C8. \<open>get_cached\<close> answers 404 when the key is not in the cache or when the
  clock reading \<open>now\<close> of its expiry test is at or after the entry's \<open>expires_at\<close>, and
  after such an answer the key is not in the cache; an answer with data comes from an
  entry of the cache with \<open>now < expires_at\<close>. The same holds for the cache lookup of the
  processing endpoint: an answer with \<open>cached = True\<close> comes from an entry with
  \<open>now < expires_at\<close>.
\<close>

theorem get_cached_never_returns_expired:
  "(c fp = None \<or> (\<exists>e. c fp = Some e \<and> now \<ge> expires_at e) \<longrightarrow>
      (\<exists>msg. snd (get_cached t_sweep now c fp) = ErrorResponse 404 msg)
      \<and> fst (get_cached t_sweep now c fp) fp = None)
   \<and> (\<forall>r. snd (get_cached t_sweep now c fp) = DataResponse r \<longrightarrow>
         (\<exists>e. c fp = Some e \<and> data e = r \<and> now < expires_at e))
   \<and> (\<forall>body r k. text_field req = Some (JStr body)
         \<and> snd (process_text_endpoint env t_sweep now t_store cache req)
             = Answer (ProcessResponse r True k) \<longrightarrow>
         (\<exists>e. cache (generate_cache_key body (Some (get_options req))) = Some e
              \<and> data e = r \<and> now < expires_at e))"
proof (intro conjI allI impI)
  assume "c fp = None \<or> (\<exists>e. c fp = Some e \<and> now \<ge> expires_at e)"
  then show "\<exists>msg. snd (get_cached t_sweep now c fp) = ErrorResponse 404 msg"
    by (auto simp: get_cached_cases)
next
  assume "c fp = None \<or> (\<exists>e. c fp = Some e \<and> now \<ge> expires_at e)"
  then show "fst (get_cached t_sweep now c fp) fp = None"
    by (auto simp: get_cached_cases clean_expired_cache_def)
next
  fix r
  assume "snd (get_cached t_sweep now c fp) = DataResponse r"
  then show "\<exists>e. c fp = Some e \<and> data e = r \<and> now < expires_at e"
    by (auto simp: get_cached_cases split: option.splits if_splits)
next
  fix body r k
  let ?out = "process_text_endpoint env t_sweep now t_store cache req"
  assume a: "text_field req = Some (JStr body) \<and> snd ?out = Answer (ProcessResponse r True k)"
  then have valid: "\<not> int (length body) > 5 * 1024 * 1024" "length (strip body) \<noteq> 0"
    using endpoint_process_response [of env t_sweep now t_store cache req r True k] by auto
  from a show "\<exists>e. cache (generate_cache_key body (Some (get_options req))) = Some e
                  \<and> data e = r \<and> now < expires_at e"
    unfolding endpoint_valid_text [OF conjunct1 [OF a] valid]
    by (auto simp: Let_def clean_expired_cache_def split: option.splits if_splits sum.splits)
qed

text \<open>
  The witness reads an entry that expires at 100: at the instant 100 itself the answer is
  404 and the entry is gone, at 99 the answer is the data. The endpoint, asked at 99 for
  the text \<open>cat dog\<close> whose entry expires at 100, answers from the cache.
\<close>

theorem get_cached_never_returns_expired_witness:
  "snd (get_cached 100 100 [''k'' \<mapsto> \<lparr>data = (), expires_at = 100\<rparr>] ''k'')
     = ErrorResponse 404 ''Cache entry expired''
   \<and> fst (get_cached 100 100 [''k'' \<mapsto> \<lparr>data = (), expires_at = 100\<rparr>] ''k'') ''k'' = None
   \<and> snd (get_cached 99 99 [''k'' \<mapsto> \<lparr>data = (), expires_at = 100\<rparr>] ''k'') = DataResponse ()
   \<and> (99 :: real) < expires_at \<lparr>data = (), expires_at = 100\<rparr>"
  using get_cached_never_returns_expired
          [of "[''k'' \<mapsto> \<lparr>data = (), expires_at = 100\<rparr>]" "''k''" 100 100]
        get_cached_never_returns_expired
          [of "[''k'' \<mapsto> \<lparr>data = (), expires_at = 100\<rparr>]" "''k''" 99 99]
  by (simp add: get_cached_cases clean_expired_cache_def)

text \<open>
  Claim C9. A cache hit leaves the entry it serves as it is, payload and \<open>expires_at\<close>:
  when \<open>get_cached\<close> answers with data, and when the processing endpoint answers with
  \<open>cached = True\<close>, the cache after the call holds under the key what it held before,
  and the answer is that entry's data.
\<close>

theorem cache_hit_is_read_only:
  "(snd (get_cached t_sweep now c fp) = DataResponse r \<longrightarrow>
      fst (get_cached t_sweep now c fp) fp = c fp \<and> (\<exists>e. c fp = Some e \<and> data e = r))
   \<and> (text_field req = Some (JStr body)
        \<and> snd (process_text_endpoint env t_sweep now t_store cache req)
            = Answer (ProcessResponse r' True k) \<longrightarrow>
      fst (process_text_endpoint env t_sweep now t_store cache req)
          (generate_cache_key body (Some (get_options req)))
        = cache (generate_cache_key body (Some (get_options req)))
      \<and> (\<exists>e. cache (generate_cache_key body (Some (get_options req))) = Some e
             \<and> data e = r'))"
proof (intro conjI impI)
  assume "snd (get_cached t_sweep now c fp) = DataResponse r"
  then show "fst (get_cached t_sweep now c fp) fp = c fp"
    by (auto simp: get_cached_cases clean_expired_cache_def split: option.splits if_splits)
next
  assume "snd (get_cached t_sweep now c fp) = DataResponse r"
  then show "\<exists>e. c fp = Some e \<and> data e = r"
    by (auto simp: get_cached_cases split: option.splits if_splits)
next
  let ?key = "generate_cache_key body (Some (get_options req))"
  let ?out = "process_text_endpoint env t_sweep now t_store cache req"
  assume a: "text_field req = Some (JStr body) \<and> snd ?out = Answer (ProcessResponse r' True k)"
  then have valid: "\<not> int (length body) > 5 * 1024 * 1024" "length (strip body) \<noteq> 0"
    using endpoint_process_response [of env t_sweep now t_store cache req r' True k] by auto
  from a have "fst ?out ?key = cache ?key \<and> (\<exists>e. cache ?key = Some e \<and> data e = r')"
    unfolding endpoint_valid_text [OF conjunct1 [OF a] valid]
    by (auto simp: Let_def clean_expired_cache_def
             split: option.splits if_splits sum.splits)
  then show "fst ?out ?key = cache ?key" and "\<exists>e. cache ?key = Some e \<and> data e = r'"
    by simp_all
qed

text \<open>
  The witness: an entry that expires at 100 is read at 50 by \<open>get_cached\<close>, and the
  entry of the text \<open>cat dog\<close>, expiring at 100, is served at 50 by the endpoint; both
  are in the cache afterwards, with \<open>expires_at = 100\<close>.
\<close>

theorem cache_hit_is_read_only_witness:
  "snd (get_cached 50 50 [''k'' \<mapsto> \<lparr>data = (), expires_at = 100\<rparr>] ''k'') = DataResponse ()
   \<and> fst (get_cached 50 50 [''k'' \<mapsto> \<lparr>data = (), expires_at = 100\<rparr>] ''k'') ''k''
       = Some \<lparr>data = (), expires_at = 100\<rparr>
   \<and> snd (process_text_endpoint cat_dog_env 50 50 50
            [generate_cache_key ''cat dog'' (Some []) \<mapsto>
               \<lparr>data = cat_dog_result, expires_at = 100\<rparr>]
            cat_dog_request)
       = Answer (ProcessResponse (cat_dog_result) True None)
   \<and> fst (process_text_endpoint cat_dog_env 50 50 50
            [generate_cache_key ''cat dog'' (Some []) \<mapsto>
               \<lparr>data = cat_dog_result, expires_at = 100\<rparr>]
            cat_dog_request) (generate_cache_key ''cat dog'' (Some []))
       = Some \<lparr>data = cat_dog_result, expires_at = 100\<rparr>"
proof -
  let ?R = "cat_dog_result"
  let ?key = "generate_cache_key ''cat dog'' (Some [])"
  let ?cache = "[?key \<mapsto> \<lparr>data = ?R, expires_at = 100\<rparr>]"
  have t: "text_field cat_dog_request = Some (JStr ''cat dog'')"
    and o: "get_options cat_dog_request = []"
    by (simp_all add: cat_dog_request_def get_options_def)
  have hit: "process_text_endpoint cat_dog_env 50 50 50 ?cache cat_dog_request
               = (clean_expired_cache 50 ?cache, Answer (ProcessResponse ?R True None))"
    unfolding endpoint_valid_text [OF t cat_dog_valid]
    by (simp add: o Let_def clean_expired_cache_def)
  show ?thesis
    using cache_hit_is_read_only
            [of 50 50 "[''k'' \<mapsto> \<lparr>data = (), expires_at = 100\<rparr>]" "''k''" "()"
                cat_dog_request "''cat dog''" cat_dog_env 50 ?cache ?R None]
    by (simp add: hit t o get_cached_cases clean_expired_cache_def)
qed

lemma collect_embeddings_none:
  "list_all (\<lambda>w. get_word_embedding env w = None) ws \<Longrightarrow> collect_embeddings env ws = ([], [])"
  by (induction ws) simp_all

text \<open>
  Claim C1. The claim says that \<open>process_text\<close> returns the lexical statistics with an
  empty \<open>words_neighbors\<close> when embeddings are disabled, when the model could not be
  loaded, or when no content word has an embedding. In the code the neighbour search of
  lines 180-196 is outside the \<open>if include_embeddings and word2vec_model is not None\<close>
  block that assigns \<open>embeddings\<close>: in the first two cases reading \<open>embeddings\<close> raises
  \<open>UnboundLocalError\<close>, in the third \<open>index.add\<close> raises \<open>ValueError\<close> on the empty
  array. \<open>process_text\<close> returns no result in any of the three cases.
\<close>

theorem process_text_raises_without_embeddings:
  "process_text env text False = Inl (UnboundLocalError ''embeddings'')
   \<and> (word2vec_model env = None \<longrightarrow>
        process_text env text include_embeddings = Inl (UnboundLocalError ''embeddings''))
   \<and> (include_embeddings \<and> word2vec_model env \<noteq> None
        \<and> list_all (\<lambda>w. get_word_embedding env w = None)
             (content_words_of env (alpha_words env text)) \<longrightarrow>
        process_text env text include_embeddings = Inl (ValueError ''not enough values to unpack''))"
proof (intro conjI impI)
  show "process_text env text False = Inl (UnboundLocalError ''embeddings'')"
    by (simp add: process_text_def Let_def)
next
  assume "word2vec_model env = None"
  then show "process_text env text include_embeddings = Inl (UnboundLocalError ''embeddings'')"
    by (simp add: process_text_def Let_def)
next
  assume a: "include_embeddings \<and> word2vec_model env \<noteq> None
        \<and> list_all (\<lambda>w. get_word_embedding env w = None)
             (content_words_of env (alpha_words env text))"
  then have "collect_embeddings env (content_words_of env (alpha_words env text)) = ([], [])"
    by (simp add: collect_embeddings_none)
  with a show "process_text env text include_embeddings
                 = Inl (ValueError ''not enough values to unpack'')"
    by (auto simp: process_text_def Let_def)
qed

text \<open>
  The three cases at concrete inputs: \<open>cat dog\<close> with embeddings disabled, \<open>cat dog\<close>
  without a model, and \<open>the bird\<close>, whose only content word \<open>bird\<close> is not in the model.
\<close>

theorem process_text_raises_without_embeddings_witness:
  "process_text cat_dog_env ''cat dog'' False = Inl (UnboundLocalError ''embeddings'')
   \<and> process_text (demo_env None [''the'']) ''cat dog'' True
       = Inl (UnboundLocalError ''embeddings'')
   \<and> process_text cat_dog_env ''the bird'' True = Inl (ValueError ''not enough values to unpack'')"
proof -
  have m: "word2vec_model (demo_env None [''the'']) = None"
    by (simp add: demo_env_def)
  have n: "word2vec_model cat_dog_env \<noteq> None"
    by (simp add: demo_env_def cat_dog_env_def)
  have e: "list_all (\<lambda>w. get_word_embedding cat_dog_env w = None)
             (content_words_of cat_dog_env (alpha_words cat_dog_env ''the bird''))"
    by code_simp
  show ?thesis
    using process_text_raises_without_embeddings [of cat_dog_env "''cat dog''" True]
          process_text_raises_without_embeddings [of "demo_env None [''the'']" "''cat dog''" True]
          process_text_raises_without_embeddings [of cat_dog_env "''the bird''" True]
          m n e
    by simp
qed

lemma neighbors_loop_length:
  "neighbors_loop words_list D I i js = Inr ns \<Longrightarrow> length ns = length js"
proof (induction js arbitrary: ns)
  case Nil
  then show ?case by simp
next
  case (Cons j js)
  then show ?case by (auto split: sum.splits)
qed

lemma set_update_cases:
  "(a, b) \<in> set (AList.update k v al) \<Longrightarrow> (a, b) = (k, v) \<or> (a, b) \<in> set al"
  by (induction al) (auto split: if_splits)

lemma words_neighbors_loop_lengths:
  "words_neighbors_loop n words_list D I ps acc = Inr res \<Longrightarrow>
   (\<And>w ns. (w, ns) \<in> set acc \<Longrightarrow> length ns = n - 1) \<Longrightarrow>
   (w, ns) \<in> set res \<Longrightarrow> length ns = n - 1"
proof (induction ps arbitrary: acc)
  case Nil
  then show ?case by simp
next
  case (Cons p ps)
  obtain i word where p: "p = (i, word)" by (cases p)
  from Cons.prems(1) p obtain neighbors where
    nb: "neighbors_loop words_list D I (int i) [1..<n] = Inr neighbors"
    and rest: "words_neighbors_loop n words_list D I ps (AList.update word neighbors acc) = Inr res"
    by (auto split: sum.splits)
  have len: "length neighbors = n - 1"
    using neighbors_loop_length [OF nb] by simp
  show ?case
  proof (rule Cons.IH [OF rest _ Cons.prems(3)])
    fix w' ns'
    assume "(w', ns') \<in> set (AList.update word neighbors acc)"
    then show "length ns' = n - 1"
      using set_update_cases [of w' ns' word neighbors acc] len Cons.prems(2) by auto
  qed
qed

lemma words_neighbors_loop_keys:
  "words_neighbors_loop n words_list D I ps acc = Inr res \<Longrightarrow>
   fst ` set res \<subseteq> fst ` set acc \<union> snd ` set ps"
proof (induction ps arbitrary: acc)
  case Nil
  then show ?case by simp
next
  case (Cons p ps)
  obtain i word where p: "p = (i, word)" by (cases p)
  from Cons.prems p obtain neighbors where
    rest: "words_neighbors_loop n words_list D I ps (AList.update word neighbors acc) = Inr res"
    by (auto split: sum.splits)
  from Cons.IH [OF rest] show ?case
    by (auto simp: p AList.dom_update)
qed

lemma process_text_Inr:
  assumes "process_text env text include_embeddings = Inr r"
  shows "include_embeddings \<and> word2vec_model env \<noteq> None
    \<and> fst (collect_embeddings env (content_words_of env (alpha_words env text))) \<noteq> []
    \<and> top_words r = top_words_of (content_words_of env (alpha_words env text))
                       (Counter (alpha_words env text))
    \<and> word_dictionary r = map (\<lambda>(word, cnt).
          (word, make_word_entry env include_embeddings (length (alpha_words env text)) word cnt))
          (Counter (alpha_words env text))
    \<and> words_neighbors_loop 10
         (snd (collect_embeddings env (content_words_of env (alpha_words env text))))
         (fst (faiss_search env (vector_size (the (word2vec_model env)))
                (fst (collect_embeddings env (content_words_of env (alpha_words env text))))
                (fst (collect_embeddings env (content_words_of env (alpha_words env text)))) 10))
         (snd (faiss_search env (vector_size (the (word2vec_model env)))
                (fst (collect_embeddings env (content_words_of env (alpha_words env text))))
                (fst (collect_embeddings env (content_words_of env (alpha_words env text)))) 10))
         (List.enumerate 0
           (snd (collect_embeddings env (content_words_of env (alpha_words env text)))))
         [] = Inr (words_neighbors r)"
  using assms
  by (auto simp: process_text_def Let_def split: if_splits option.splits sum.splits prod.splits)

text \<open>
  Claim C2. The claim says that with \<open>k \<ge> 2\<close> indexed words every neighbour list has
  \<open>min(9, k - 1)\<close> entries, none of them the word itself. The loop \<open>for j in range(1, n)\<close>
  always runs nine times, whatever \<open>k\<close> is: whenever \<open>process_text\<close> returns, every list of
  \<open>words_neighbors\<close> has nine entries. With fewer than ten indexed words the search has
  no ninth neighbour; faiss then reports the label \<open>-1\<close>, and \<open>words_list[-1]\<close> is the
  last indexed word.
\<close>

theorem neighbor_lists_have_nine_entries:
  assumes "process_text env text include_embeddings = Inr r"
      and "(w, ns) \<in> set (words_neighbors r)"
  shows "length ns = 9"
proof -
  from process_text_Inr [OF assms(1)] have
    "words_neighbors_loop 10
       (snd (collect_embeddings env (content_words_of env (alpha_words env text))))
       (fst (faiss_search env (vector_size (the (word2vec_model env)))
              (fst (collect_embeddings env (content_words_of env (alpha_words env text))))
              (fst (collect_embeddings env (content_words_of env (alpha_words env text)))) 10))
       (snd (faiss_search env (vector_size (the (word2vec_model env)))
              (fst (collect_embeddings env (content_words_of env (alpha_words env text))))
              (fst (collect_embeddings env (content_words_of env (alpha_words env text)))) 10))
       (List.enumerate 0
         (snd (collect_embeddings env (content_words_of env (alpha_words env text)))))
       [] = Inr (words_neighbors r)"
    by blast
  from words_neighbors_loop_lengths [OF this _ assms(2)] show ?thesis by simp
qed


lemma collect_embeddings_words:
  "w \<in> set (snd (collect_embeddings env ws)) \<Longrightarrow>
     w \<in> set ws \<and> (\<exists>v. get_word_embedding env w = Some v)"
  by (induction ws) (auto split: option.splits)

lemma foldl_counter_incr_keys:
  "fst ` set (foldl counter_incr m ws) = fst ` set m \<union> set ws"
  by (induction ws arbitrary: m) (auto simp: counter_incr_def AList.dom_update)

lemma Counter_keys: "fst ` set (Counter ws) = set ws"
  by (simp add: Counter_def foldl_counter_incr_keys)

lemma map_of_map_entry:
  "map_of (map (\<lambda>(k, v). (k, f k v)) xs) k = map_option (f k) (map_of xs k)"
  by (induction xs) auto

text \<open>
  Claim C5. The claim says that every key of \<open>words_neighbors\<close> is a key of
  \<open>word_dictionary\<close> whose record has \<open>embedding_available = true\<close>. The first half holds.
  The record of such a word has the keys \<open>embedding\<close> and \<open>embedding_dim\<close> and no key
  \<open>embedding_available\<close> at all: \<open>process_text\<close> sets that key only to \<open>False\<close>, for a
  word without an embedding (\<open>get_word_info\<close> sets it in both cases).
\<close>

theorem neighbor_words_have_no_embedding_available:
  assumes "process_text env text include_embeddings = Inr r"
      and "w \<in> fst ` set (words_neighbors r)"
  shows "\<exists>e v. map_of (word_dictionary r) w = Some e \<and> embedding e = Some (Some v)
           \<and> embedding_dim e = Some (length v) \<and> embedding_available e = None"
proof -
  let ?words = "alpha_words env text"
  let ?wl = "snd (collect_embeddings env (content_words_of env ?words))"
  note ok = process_text_Inr [OF assms(1)]
  from ok have incl: include_embeddings by simp
  let ?embs = "fst (collect_embeddings env (content_words_of env ?words))"
  let ?DI = "faiss_search env (vector_size (the (word2vec_model env))) ?embs ?embs 10"
  from ok have "words_neighbors_loop 10 ?wl (fst ?DI) (snd ?DI) (List.enumerate 0 ?wl) []
                  = Inr (words_neighbors r)"
    by blast
  from words_neighbors_loop_keys [OF this]
  have "fst ` set (words_neighbors r) \<subseteq> snd ` set (List.enumerate 0 ?wl)"
    by simp
  moreover have "snd ` set (List.enumerate 0 ?wl) = set ?wl"
    by (metis list.set_map map_snd_enumerate)
  ultimately have "w \<in> set ?wl" using assms(2) by blast
  from collect_embeddings_words [OF this] obtain v where
    cw: "w \<in> set (content_words_of env ?words)" and v: "get_word_embedding env w = Some v"
    by blast
  from cw have "w \<in> fst ` set (Counter ?words)"
    by (simp add: content_words_of_def Counter_keys)
  then obtain c where c: "map_of (Counter ?words) w = Some c"
    by (cases "map_of (Counter ?words) w") (auto simp: map_of_eq_None_iff)
  from ok have "word_dictionary r = map (\<lambda>(word, cnt).
          (word, make_word_entry env include_embeddings (length ?words) word cnt))
          (Counter ?words)" by simp
  then have "map_of (word_dictionary r) w
               = Some (make_word_entry env include_embeddings (length ?words) w c)"
    by (simp add: map_of_map_entry c)
  then show ?thesis
    using incl v by (simp add: make_word_entry_def Let_def)
qed

lemma cat_dog_neighbors:
  "words_neighbors cat_dog_result
     = [(''cat'', (''dog'', 1) # replicate 8 (''dog'', FLT_MAX)),
        (''dog'', (''cat'', 1) # replicate 8 (''dog'', FLT_MAX))]"
  unfolding cat_dog_result_def by code_simp

lemma cat_dog_dictionary:
  "map (\<lambda>(w, e). (w, embedding e, embedding_dim e, embedding_available e))
       (word_dictionary cat_dog_result)
     = [(''cat'', Some (Some [0, 0]), Some 2, None), (''dog'', Some (Some [1, 0]), Some 2, None)]"
  unfolding cat_dog_result_def by code_simp

text \<open>
  For the text \<open>cat dog\<close> two words are indexed, so the claim asks for one neighbour
  each. Both lists have nine entries, and the list of \<open>dog\<close> names \<open>dog\<close> itself eight
  times, at the distance that faiss reports for a missing neighbour.
\<close>

theorem neighbor_lists_have_nine_entries_witness:
  "process_text cat_dog_env ''cat dog'' True = Inr cat_dog_result
   \<and> words_neighbors cat_dog_result
       = [(''cat'', (''dog'', 1) # replicate 8 (''dog'', FLT_MAX)),
          (''dog'', (''cat'', 1) # replicate 8 (''dog'', FLT_MAX))]
   \<and> length ((''cat'', 1 :: real) # replicate 8 (''dog'', FLT_MAX)) = 9"
  using neighbor_lists_have_nine_entries [OF process_text_cat_dog,
          of "''dog''" "(''cat'', 1) # replicate 8 (''dog'', FLT_MAX)"]
        process_text_cat_dog cat_dog_neighbors
  by simp

text \<open>
  In the analysis of \<open>cat dog\<close> the word \<open>cat\<close> has neighbours, and its record has an
  embedding and no \<open>embedding_available\<close>.
\<close>

theorem neighbor_words_have_no_embedding_available_witness:
  "process_text cat_dog_env ''cat dog'' True = Inr cat_dog_result
   \<and> ''cat'' \<in> fst ` set (words_neighbors cat_dog_result)
   \<and> (\<exists>e. map_of (word_dictionary cat_dog_result) ''cat'' = Some e
          \<and> embedding e = Some (Some [0, 0]) \<and> embedding_available e = None)"
proof -
  have k: "''cat'' \<in> fst ` set (words_neighbors cat_dog_result)"
    by (simp add: cat_dog_neighbors)
  from neighbor_words_have_no_embedding_available [OF process_text_cat_dog k]
  obtain e v where e: "map_of (word_dictionary cat_dog_result) ''cat'' = Some e"
    "embedding e = Some (Some v)" "embedding_available e = None"
    by blast
  have "map_of (map (\<lambda>(w, e). (w, embedding e, embedding_dim e, embedding_available e))
       (word_dictionary cat_dog_result)) ''cat'' = Some (Some (Some [0, 0]), Some 2, None)"
    by (simp add: cat_dog_dictionary)
  then have "embedding e = Some (Some [0, 0])"
    using e(1) by (simp add: map_of_map_entry)
  with e k process_text_cat_dog show ?thesis by simp
qed


section \<open>Properties of \<open>top_words\<close>\<close>


lemma first_seen_snoc:
  "first_seen (ws @ [x]) = (if x \<in> set ws then first_seen ws else first_seen ws @ [x])"
  by (simp add: first_seen_def)

lemma set_first_seen: "set (first_seen ws) = set ws"
  by (simp add: first_seen_def)

lemma distinct_first_seen: "distinct (first_seen ws)"
  by (simp add: first_seen_def)

lemma length_first_seen: "length (first_seen ws) = card (set ws)"
  by (metis distinct_card distinct_first_seen set_first_seen)

lemma update_new_key:
  "k \<notin> fst ` set al \<Longrightarrow> AList.update k v al = al @ [(k, v)]"
  by (induction al) auto

lemma update_map_key:
  "distinct xs \<Longrightarrow> k \<in> set xs \<Longrightarrow>
     AList.update k v (map (\<lambda>w. (w, g w)) xs) = map (\<lambda>w. (w, (g(k := v)) w)) xs"
  by (induction xs) auto

lemma map_of_map_key:
  "map_of (map (\<lambda>w. (w, g w)) xs) k = (if k \<in> set xs then Some (g k) else None)"
  by (induction xs) auto

lemma count_list_snoc:
  "count_list (ws @ [x]) w = count_list ws w + (if w = x then 1 else 0)"
  by (induction ws) auto

lemma Counter_snoc: "Counter (ws @ [x]) = counter_incr (Counter ws) x"
  by (simp add: Counter_def)

lemma Counter_first_seen:
  "Counter ws = map (\<lambda>w. (w, count_list ws w)) (first_seen ws)"
proof (induction ws rule: rev_induct)
  case Nil
  then show ?case by (simp add: Counter_def first_seen_def)
next
  case (snoc x ws)
  let ?g = "\<lambda>w. count_list ws w"
  let ?m = "map (\<lambda>w. (w, ?g w)) (first_seen ws)"
  show ?case
  proof (cases "x \<in> set ws")
    case True
    then have "counter_incr ?m x = AList.update x (count_list ws x + 1) ?m"
      by (simp add: counter_incr_def map_of_map_key set_first_seen)
    also have "\<dots> = map (\<lambda>w. (w, (?g(x := count_list ws x + 1)) w)) (first_seen ws)"
      using True by (simp add: update_map_key distinct_first_seen set_first_seen)
    also have "\<dots> = map (\<lambda>w. (w, count_list (ws @ [x]) w)) (first_seen (ws @ [x]))"
      using True by (simp add: first_seen_snoc count_list_snoc)
    finally show ?thesis by (simp add: Counter_snoc snoc.IH)
  next
    case False
    then have "counter_incr ?m x = AList.update x 1 ?m"
      by (simp add: counter_incr_def map_of_map_key set_first_seen)
    also have "\<dots> = ?m @ [(x, 1)]"
      using False by (simp add: update_new_key set_first_seen image_image)
    also have "\<dots> = map (\<lambda>w. (w, count_list (ws @ [x]) w)) (first_seen (ws @ [x]))"
      using False by (auto simp: first_seen_snoc count_list_snoc set_first_seen)
    finally show ?thesis by (simp add: Counter_snoc snoc.IH)
  qed
qed

lemma set_take_subset_fst: "(w, c) \<in> set (take n xs) \<Longrightarrow> w \<in> fst ` set xs"
  by (metis fst_conv image_eqI in_set_takeD)

lemma top_words_of_eq:
  "top_words_of (content_words_of env ws) (Counter ws)
     = filter (\<lambda>(w, c). w \<notin> set (stopwords_words env))
         (take 100 (sort_key (\<lambda>(w, c). - int c)
            (map (\<lambda>w. (w, count_list ws w)) (first_seen ws))))"
proof -
  have "\<And>w c. (w, c) \<in> set (most_common 100 (Counter ws)) \<Longrightarrow> w \<in> set ws"
  proof -
    fix w c assume "(w, c) \<in> set (most_common 100 (Counter ws))"
    then have "w \<in> fst ` set (sort_key (\<lambda>(w, c). - int c) (Counter ws))"
      unfolding most_common_def by (rule set_take_subset_fst)
    then show "w \<in> set ws" by (simp add: Counter_first_seen set_first_seen image_image)
  qed
  then have "filter (\<lambda>(w, c). w \<in> set (content_words_of env ws)) (most_common 100 (Counter ws))
      = filter (\<lambda>(w, c). w \<notin> set (stopwords_words env)) (most_common 100 (Counter ws))"
    by (intro filter_cong) (auto simp: content_words_of_def)
  then show ?thesis
    by (simp add: top_words_of_def most_common_def Counter_first_seen)
qed

text \<open>
  Claim C4, amended. \<open>top_words\<close> is made of the 100 most frequent words of the
  document, stop words included, ties in the order of first occurrence, from which the
  stop words are then removed. So it has at most 100 entries, none of them a stop word,
  by decreasing count; and when the document has at most 100 distinct words it lists all
  its words that are not stop words.
\<close>

theorem top_words_characterisation:
  assumes "process_text env text include_embeddings = Inr r"
  shows "top_words r = filter (\<lambda>(w, c). w \<notin> set (stopwords_words env))
           (take 100 (sort_key (\<lambda>(w, c). - int c)
              (map (\<lambda>w. (w, count_list (alpha_words env text) w))
                   (first_seen (alpha_words env text)))))
     \<and> length (top_words r) \<le> 100
     \<and> fst ` set (top_words r) \<inter> set (stopwords_words env) = {}
     \<and> sorted_wrt (\<lambda>a b. snd a \<ge> snd b) (top_words r)
     \<and> (card (set (alpha_words env text)) \<le> 100 \<longrightarrow>
          fst ` set (top_words r) = set (alpha_words env text) - set (stopwords_words env))"
proof -
  let ?ws = "alpha_words env text"
  let ?items = "map (\<lambda>w. (w, count_list ?ws w)) (first_seen ?ws)"
  let ?key = "\<lambda>(w :: string, c :: nat). - int c"
  let ?nonstop = "\<lambda>(w :: string, c :: nat). w \<notin> set (stopwords_words env)"
  from process_text_Inr [OF assms]
  have "top_words r = top_words_of (content_words_of env ?ws) (Counter ?ws)" by simp
  then have eq: "top_words r = filter ?nonstop (take 100 (sort_key ?key ?items))"
    by (simp add: top_words_of_eq)
  have len: "length (top_words r) \<le> 100"
    unfolding eq by (rule order_trans [OF length_filter_le]) simp
  have nostop: "fst ` set (top_words r) \<inter> set (stopwords_words env) = {}"
    unfolding eq by auto
  have "sorted (map ?key (sort_key ?key ?items))" by (rule sorted_sort_key)
  then have "sorted_wrt (\<lambda>a b. ?key a \<le> ?key b) (sort_key ?key ?items)"
    by (simp add: sorted_map)
  then have "sorted_wrt (\<lambda>a b. snd a \<ge> snd b) (sort_key ?key ?items)"
    by (rule sorted_wrt_mono_rel [rotated]) auto
  then have srt: "sorted_wrt (\<lambda>a b. snd a \<ge> snd b) (top_words r)"
    unfolding eq by (intro sorted_wrt_filter sorted_wrt_take)
  have all: "fst ` set (top_words r) = set ?ws - set (stopwords_words env)"
    if "card (set ?ws) \<le> 100"
  proof -
    from that have "length (sort_key ?key ?items) \<le> 100"
      by (simp add: length_first_seen)
    then have "take 100 (sort_key ?key ?items) = sort_key ?key ?items" by simp
    then have "top_words r = filter ?nonstop (sort_key ?key ?items)" using eq by simp
    then show ?thesis by (force simp: set_first_seen)
  qed
  from eq len nostop srt all show ?thesis by blast
qed

lemma cat_dog_top_words: "top_words cat_dog_result = [(''cat'', 1), (''dog'', 1)]"
  unfolding cat_dog_result_def by code_simp

text \<open>The witness is the analysis of \<open>cat dog\<close>.\<close>

theorem top_words_characterisation_witness:
  "process_text cat_dog_env ''cat dog'' True = Inr cat_dog_result
   \<and> top_words cat_dog_result = [(''cat'', 1), (''dog'', 1)]
   \<and> length (top_words cat_dog_result) \<le> 100
   \<and> fst ` set (top_words cat_dog_result) \<inter> set (stopwords_words cat_dog_env) = {}"
proof -
  from top_words_characterisation [OF process_text_cat_dog]
  have "length (top_words cat_dog_result) \<le> 100"
    and "fst ` set (top_words cat_dog_result) \<inter> set (stopwords_words cat_dog_env) = {}"
    by blast+
  with process_text_cat_dog cat_dog_top_words show ?thesis by blast
qed

text \<open>
  Claim C4. The claim says that \<open>top_words\<close> is the 100 most frequent words that are
  not stop words, so that it has 100 entries whenever 100 distinct such words occur. The
  code takes \<open>most_common(100)\<close> of all words first and drops the stop words afterwards.
  In \<open>hundred_words_text\<close> the stop word \<open>the\<close> is the most frequent word and 100
  distinct other words occur: \<open>top_words\<close> has 99 entries.
\<close>

theorem top_words_short_of_hundred:
  "map_sum id (length \<circ> top_words) (process_text cat_dog_env hundred_words_text True)
     = Inr 99
   \<and> length (remdups (content_words_of cat_dog_env (alpha_words cat_dog_env hundred_words_text)))
     = 100"
  by code_simp

section \<open>Properties of the cache key\<close>































section \<open>Properties of repeated requests\<close>







end
